theory Spec2Isabelle
  imports Main
begin

section \<open>Shared data: tasks and errors\<close>

text \<open>
  Strings are Go strings: sequences of bytes, \<open>len\<close> counts bytes. A pipe end handed out
  by the operating system is identified by a number; \<open>None\<close> stands for a nil interface
  value. A client is a pointer in the source; here it is an address into a store of clients.
\<close>

type_synonym pipe = nat
type_synonym addr = nat

text \<open>
  \<open>Task\<close> (declared in a file that is not part of the sources): the fields the run loop and
  the clients read are \<open>task.Run\<close>, \<open>task.Clients\<close> and \<open>task.Input\<close>. The input is an
  \<open>io.Reader\<close>; the model keeps the bytes it delivers until EOF.
\<close>

record Task =
  Run :: string
  Clients :: "addr list"
  Input :: "string option"

datatype error =
    ErrorString string           \<comment> \<open>\<open>errors.New(msg)\<close>, \<open>fmt.Errorf\<close>, or an error of the OS\<close>
  | Joined error error           \<comment> \<open>\<open>errors.Join(a, b)\<close>\<close>
  | SshExitError int             \<comment> \<open>\<open>*ssh.ExitError\<close> with its \<open>ExitStatus()\<close>\<close>
  | ExecExitError int            \<comment> \<open>\<open>*exec.ExitError\<close> with its \<open>ExitCode()\<close>\<close>
  | ErrTask Task string          \<comment> \<open>\<open>ErrTask{task, msg}\<close>\<close>
  | Panic string                 \<comment> \<open>a runtime panic\<close>

section \<open>internal/sup/localhost.go\<close>

text \<open>\<open>exec.Command(name, args...)\<close>: the command line is the name followed by the arguments.\<close>

record Cmd =
  Path :: string
  Args :: "string list"

definition exec_Command :: "string \<Rightarrow> string list \<Rightarrow> Cmd" where
  "exec_Command name args = \<lparr>Path = name, Args = name # args\<rparr>"

record LocalhostClient =
  cmd :: "Cmd option"
  user :: string
  stdin :: "pipe option"
  stdout :: "pipe option"
  stderr :: "pipe option"
  running :: bool
  env :: string

text \<open>
  What the operating system answers to the four calls \<open>Run\<close> makes on the new command:
  the three pipe requests and \<open>Start\<close> (\<open>Some msg\<close> is the error's text).
\<close>

record exec_outcome =
  StdoutPipe :: "error + pipe"
  StderrPipe :: "error + pipe"
  StdinPipe :: "error + pipe"
  Start :: "string option"

text \<open>\<open>Connect\<close>: \<open>user.Current()\<close> is answered by the operating system.\<close>

definition LocalhostClient_Connect ::
  "error + string \<Rightarrow> LocalhostClient \<Rightarrow> error option \<times> LocalhostClient" where
  "LocalhostClient_Connect current c =
     (case current of
        Inl err \<Rightarrow> (Some err, c)
      | Inr username \<Rightarrow> (None, c\<lparr>user := username\<rparr>))"

definition LocalhostClient_Run ::
  "exec_outcome \<Rightarrow> Task \<Rightarrow> LocalhostClient \<Rightarrow> error option \<times> LocalhostClient" where
  "LocalhostClient_Run os task c =
     (if running c then (Some (ErrorString ''Command already running''), c)
      else
        (let cmdArgs = [''-c'', env c @ Run task];
             c1 = c\<lparr>cmd := Some (exec_Command ''bash'' cmdArgs)\<rparr>
         in case StdoutPipe os of
              Inl err \<Rightarrow> (Some err, c1\<lparr>stdout := None\<rparr>)
            | Inr out \<Rightarrow>
               (let c2 = c1\<lparr>stdout := Some out\<rparr>
                in case StderrPipe os of
                     Inl err \<Rightarrow> (Some err, c2\<lparr>stderr := None\<rparr>)
                   | Inr er \<Rightarrow>
                      (let c3 = c2\<lparr>stderr := Some er\<rparr>
                       in case StdinPipe os of
                            Inl err \<Rightarrow> (Some err, c3\<lparr>stdin := None\<rparr>)
                          | Inr inp \<Rightarrow>
                             (let c4 = c3\<lparr>stdin := Some inp\<rparr>
                              in case Start os of
                                   Some msg \<Rightarrow> (Some (ErrTask task msg), c4)
                                 | None \<Rightarrow> (None, c4\<lparr>running := True\<rparr>))))))"

text \<open>\<open>Wait\<close>: \<open>cmdWait\<close> is what \<open>c.cmd.Wait()\<close> returns.\<close>

definition LocalhostClient_Wait ::
  "error option \<Rightarrow> LocalhostClient \<Rightarrow> error option \<times> LocalhostClient" where
  "LocalhostClient_Wait cmdWait c =
     (if \<not> running c then (Some (ErrorString ''trying to wait on stopped command''), c)
      else (cmdWait, c\<lparr>running := False\<rparr>))"

definition LocalhostClient_Stdin :: "LocalhostClient \<Rightarrow> pipe option" where
  "LocalhostClient_Stdin c = stdin c"

text \<open>
  \<open>Prefix\<close>: \<open>colors.ResetColor\<close> is a constant of a package that is not part of the
  sources; it is the parameter \<open>ResetColor\<close>. The length is a Go \<open>int\<close>.
\<close>

definition LocalhostClient_Prefix :: "string \<Rightarrow> LocalhostClient \<Rightarrow> string \<times> int" where
  "LocalhostClient_Prefix ResetColor c =
     (let host = user c @ ''@localhost'' @ '' | ''
      in (ResetColor @ host, int (length host)))"


section \<open>Declarations of packages outside the sources\<close>

text \<open>
  \<open>envs.EnvList\<close>, \<open>command.Command\<close>, \<open>network.Network\<close> and \<open>supfile.Supfile\<close> are
  declared in packages that are not part of the sources. Their types follow the fields the
  sources read and the data model of the specification: an environment list is an ordered
  sequence of key/value pairs; a command has a name (assigned at dispatch) and the fields
  of the configuration file; a network has a user, an optional bastion, the hosts, an
  environment and an identity file; a configuration maps command names to commands and target names to lists of
  command names.
\<close>

type_synonym EnvList = "(string \<times> string) list"

record Command =
  Name :: string
  Desc :: string
  Local :: string
  RunSnippet :: string
  Script :: string
  Stdin :: bool
  Once :: bool
  Serial :: int

record Network =
  User :: string
  Bastion :: string
  Hosts :: "string list"
  Env :: EnvList
  IdentityFile :: string

record Supfile =
  Networks :: "string \<rightharpoonup> Network"
  Commands :: "string \<rightharpoonup> Command"
  Targets :: "string \<rightharpoonup> string list"
  ConfEnv :: EnvList

text \<open>
  Modelled from the spec: \<open>EnvList.Set\<close> (package \<open>envs\<close> is not part of the sources)
  "updates an existing key in place or appends".
\<close>

fun Set_env :: "EnvList \<Rightarrow> string \<Rightarrow> string \<Rightarrow> EnvList" where
  "Set_env [] key val = [(key, val)]"
| "Set_env ((k, v) # e) key val =
     (if k = key then (k, val) # e else (k, v) # Set_env e key val)"

section \<open>internal/sup/sup.go\<close>

subsection \<open>Clients\<close>

text \<open>
  Modelled from the spec: \<open>SSHClient\<close> (its file is not part of the sources). The struct
  literal in \<open>Stackup.Run\<close> sets \<open>env\<close>, \<open>user\<close> and \<open>color\<close>; the remaining fields are
  those of the specification's client contract: the host set by \<open>Connect\<close>, the running
  flag and the stdin writer.
\<close>

record SSHClient =
  env_ssh :: string
  user_ssh :: string
  color :: string
  host_ssh :: string
  running_ssh :: bool
  stdin_ssh :: "pipe option"

text \<open>
  Modelled from the spec: \<open>SSHClient.Prefix\<close> is "colored per-host" and "formatted
  \<open><user>@<host> | \<close>"; its printable length "excludes any terminal color escape
  sequences".
\<close>

definition SSHClient_Prefix :: "SSHClient \<Rightarrow> string \<times> int" where
  "SSHClient_Prefix c =
     (let host = user_ssh c @ ''@'' @ host_ssh c @ '' | ''
      in (color c @ host, int (length host)))"

datatype Client = Local LocalhostClient | Remote SSHClient

type_synonym store = "addr \<rightharpoonup> Client"

datatype outcome =
    Return "error option"    \<comment> \<open>\<open>Run\<close> returns this error (or nil)\<close>
  | Exit int                 \<comment> \<open>\<open>os.Exit(code)\<close>\<close>
  | Crashed error            \<comment> \<open>an unrecovered panic ends the process\<close>

datatype event =
    ConnectBastion string          \<comment> \<open>\<open>bastion.Connect(addr)\<close>\<close>
  | ConnectHost string             \<comment> \<open>\<open>Connect\<close>/\<open>ConnectWith\<close> of the client for a host\<close>
  | Started addr Task              \<comment> \<open>\<open>c.Run(task)\<close> succeeded on the client at this address\<close>
  | Stdout string                  \<comment> \<open>a line copied to \<open>os.Stdout\<close>\<close>
  | Stderr string                  \<comment> \<open>a line copied to \<open>os.Stderr\<close>\<close>
  | StderrError string error       \<comment> \<open>\<open>fmt.Fprintf(os.Stderr, "%s%v\n", prefix, err)\<close>\<close>
  | StdinWrite pipe string         \<comment> \<open>bytes written to a stdin writer\<close>
  | WriteClose addr                \<comment> \<open>\<open>c.WriteClose()\<close> called on the client at this address\<close>
  | Signal addr                    \<comment> \<open>\<open>c.Signal(sig)\<close> called on the client at this address\<close>
  | CloseRemote addr               \<comment> \<open>\<open>remote.Close()\<close>\<close>

text \<open>
  Everything outside the sources that \<open>Run\<close> consults: the operating system, the network,
  the clock-free answers of remote hosts, and the methods of this repository that are
  declared in files that are not part of the sources.
\<close>

record world =
  ResetColor :: string                                     \<comment> \<open>\<open>colors.ResetColor\<close>\<close>
  Colors :: "string list"                                  \<comment> \<open>\<open>colors.Colors\<close>\<close>
  AsExport :: "EnvList \<Rightarrow> string"                         \<comment> \<open>\<open>EnvList.AsExport\<close>\<close>
  user_Current :: "error + string"                         \<comment> \<open>\<open>user.Current()\<close>\<close>
  bastion_Connect :: "string \<Rightarrow> error option"             \<comment> \<open>\<open>SSHClient.Connect\<close> of the bastion\<close>
  ssh_Connect :: "string \<Rightarrow> SSHClient \<Rightarrow> error option \<times> SSHClient"
  ssh_ConnectWith :: "string \<Rightarrow> SSHClient \<Rightarrow> error option \<times> SSHClient"
  ssh_Run :: "Task \<Rightarrow> SSHClient \<Rightarrow> error option \<times> SSHClient"
  ssh_Wait :: "Task \<Rightarrow> SSHClient \<Rightarrow> error option \<times> SSHClient"
  createTasks :: "Command \<Rightarrow> addr list \<Rightarrow> string \<Rightarrow> store \<Rightarrow> error + Task list \<times> store"
  exec :: "addr \<Rightarrow> Task \<Rightarrow> exec_outcome"                  \<comment> \<open>the OS, when a local client starts a task\<close>
  cmd_Wait :: "addr \<Rightarrow> Task \<Rightarrow> error option"              \<comment> \<open>\<open>c.cmd.Wait()\<close> of a local client\<close>
  proc_output :: "addr \<Rightarrow> Task \<Rightarrow> string list \<times> string list"  \<comment> \<open>the lines a task writes to stdout and stderr\<close>
  interrupts :: "Task \<Rightarrow> nat"                             \<comment> \<open>interrupts the operator sends during a task\<close>

text \<open>Dispatch through the \<open>Client\<close> interface.\<close>

definition Client_Prefix :: "world \<Rightarrow> Client \<Rightarrow> string \<times> int" where
  "Client_Prefix w c =
     (case c of Local l \<Rightarrow> LocalhostClient_Prefix (ResetColor w) l
              | Remote r \<Rightarrow> SSHClient_Prefix r)"

definition Client_Run :: "world \<Rightarrow> addr \<Rightarrow> Task \<Rightarrow> Client \<Rightarrow> error option \<times> Client" where
  "Client_Run w a task c =
     (case c of
        Local l \<Rightarrow> (let (err, l') = LocalhostClient_Run (exec w a task) task l in (err, Local l'))
      | Remote r \<Rightarrow> (let (err, r') = ssh_Run w task r in (err, Remote r')))"

definition Client_Wait :: "world \<Rightarrow> addr \<Rightarrow> Task \<Rightarrow> Client \<Rightarrow> error option \<times> Client" where
  "Client_Wait w a task c =
     (case c of
        Local l \<Rightarrow> (let (err, l') = LocalhostClient_Wait (cmd_Wait w a task) l in (err, Local l'))
      | Remote r \<Rightarrow> (let (err, r') = ssh_Wait w task r in (err, Remote r')))"

definition Client_Stdin :: "Client \<Rightarrow> pipe option" where
  "Client_Stdin c = (case c of Local l \<Rightarrow> LocalhostClient_Stdin l | Remote r \<Rightarrow> stdin_ssh r)"

record Stackup =
  conf_sup :: Supfile
  debug :: bool
  prefix :: bool

record state =
  heap :: store
  trace :: "event list"

subsection \<open>Phase A of \<open>Run\<close>: one connector per host\<close>

text \<open>
  The body of the goroutine started for host \<open>i\<close> (sup.go, lines 65-102). \<open>exports\<close> is the variable \<open>env\<close> of \<open>Run\<close>; \<open>bastion\<close> says
  whether a bastion was connected. The result is what the goroutine sends: a client on
  \<open>clientCh\<close> or an error on \<open>errCh\<close>. Indexing an empty palette divides by zero.
\<close>

definition connector ::
  "world \<Rightarrow> string \<Rightarrow> Network \<Rightarrow> bool \<Rightarrow> nat \<Rightarrow> string \<Rightarrow> error + Client" where
  "connector w exports net bastion i host =
     (if host = ''localhost'' then
        (let local = \<lparr>cmd = None, user = [], stdin = None, stdout = None, stderr = None,
                       running = False,
                       env = exports @ ''export SUP_HOST=\"'' @ host @ ''\";''\<rparr>
         in case LocalhostClient_Connect (user_Current w) local of
              (Some err, _) \<Rightarrow> Inl (Joined err (ErrorString ''connecting to localhost failed''))
            | (None, local') \<Rightarrow> Inr (Local local'))
      else if Colors w = [] then Inl (Panic ''integer divide by zero'')
      else
        (let remote = \<lparr>env_ssh = exports @ ''export SUP_HOST=\"'' @ host @ ''\";'',
                        user_ssh = User net,
                        color = Colors w ! (i mod length (Colors w)),
                        host_ssh = [], running_ssh = False, stdin_ssh = None\<rparr>
         in if bastion then
              (case ssh_ConnectWith w host remote of
                 (Some err, _) \<Rightarrow>
                   Inl (Joined err (ErrorString ''connecting to remote host through bastion failed''))
               | (None, remote') \<Rightarrow> Inr (Remote remote'))
            else
              (case ssh_Connect w host remote of
                 (Some err, _) \<Rightarrow> Inl (Joined err (ErrorString ''connecting to remote host failed''))
               | (None, remote') \<Rightarrow> Inr (Remote remote'))))"

text \<open>The drain of \<open>clientCh\<close> (lines 109-120): the widest printable prefix.\<close>

fun maxLen_loop :: "world \<Rightarrow> Client list \<Rightarrow> int \<Rightarrow> int" where
  "maxLen_loop w [] maxLen = maxLen"
| "maxLen_loop w (client # rest) maxLen =
     (let (_, prefixLen) = Client_Prefix w client
      in maxLen_loop w rest (if prefixLen > maxLen then prefixLen else maxLen))"

subsection \<open>Phase B of \<open>Run\<close>: one task\<close>

text \<open>
  The prefix of a client's lines (lines 150-155, and again lines 239-249). \<open>p\<close> is what
  \<open>c.Prefix()\<close> returned. With the prefix feature off the prefix is the empty string.
  \<open>strings.Repeat\<close> panics on a negative count.
\<close>

definition strings_Repeat :: "string \<Rightarrow> int \<Rightarrow> error + string" where
  "strings_Repeat s count =
     (if count < 0 then Inl (Panic ''strings: negative Repeat count'')
      else Inr (concat (replicate (nat count) s)))"

definition paddedPrefix :: "bool \<Rightarrow> int \<Rightarrow> string \<times> int \<Rightarrow> error + string" where
  "paddedPrefix sup_prefix maxLen p =
     (if sup_prefix then
        (let (pre, prefixLen) = p
         in if int (length pre) < maxLen then
              (case strings_Repeat '' '' (maxLen - prefixLen) of
                 Inl err \<Rightarrow> Inl err
               | Inr pad \<Rightarrow> Inr (pad @ pre))
            else Inr pre)
      else Inr [])"


text \<open>
  The goroutines of a task run concurrently in the source. The model runs them one after
  another in the order in which the source starts them, and a call of \<open>os.Exit\<close> or a
  panic ends the run at that point.

  The start loop (lines 144-189): for every client of the task, compute the prefix, start
  the task, copy the client's stdout and stderr lines behind the prefix, and record the
  client's stdin writer.
\<close>

fun startClients ::
  "world \<Rightarrow> Stackup \<Rightarrow> int \<Rightarrow> Task \<Rightarrow> addr list \<Rightarrow> pipe option list \<Rightarrow> state
     \<Rightarrow> (outcome + pipe option list) \<times> state" where
  "startClients w app maxLen task [] writers s = (Inr writers, s)"
| "startClients w app maxLen task (a # rest) writers s =
     (case heap s a of
        None \<Rightarrow> (Inl (Crashed (Panic ''nil pointer dereference'')), s)
      | Some c \<Rightarrow>
          (case paddedPrefix (prefix app) maxLen (Client_Prefix w c) of
             Inl err \<Rightarrow> (Inl (Crashed err), s)
           | Inr pre \<Rightarrow>
               (case Client_Run w a task c of
                  (Some err, c') \<Rightarrow>
                    (Inl (Return (Some (Joined err (ErrorString (pre @ ''task failed''))))),
                     s\<lparr>heap := (heap s)(a \<mapsto> c')\<rparr>)
                | (None, c') \<Rightarrow>
                    startClients w app maxLen task rest (writers @ [Client_Stdin c'])
                      (s\<lparr>heap := (heap s)(a \<mapsto> c'),
                         trace := trace s @ [Started a task]
                           @ map (\<lambda>line. Stdout (pre @ line)) (fst (proc_output w a task))
                           @ map (\<lambda>line. Stderr (pre @ line)) (snd (proc_output w a task))\<rparr>))))"

text \<open>
  \<open>io.Copy(io.MultiWriter(writers...), task.Input)\<close>: every writer receives the input, in
  the order of \<open>writers\<close>; writing to a nil writer panics.
\<close>

fun multiWrite :: "pipe option list \<Rightarrow> string \<Rightarrow> event list \<Rightarrow> error + event list" where
  "multiWrite [] data tr = Inr tr"
| "multiWrite (None # rest) data tr = Inl (Panic ''nil pointer dereference'')"
| "multiWrite (Some wr # rest) data tr = multiWrite rest data (tr @ [StdinWrite wr data])"

text \<open>
  \<open>c.WriteClose()\<close> for every \<open>c\<close> of a list of clients (lines 201-203). A local client
  calls \<open>Close\<close> on its stdin, which panics while that is nil.
\<close>

fun writeCloseAll :: "addr list \<Rightarrow> state \<Rightarrow> outcome option \<times> state" where
  "writeCloseAll [] s = (None, s)"
| "writeCloseAll (a # rest) s =
     (case heap s a of
        None \<Rightarrow> (Some (Crashed (Panic ''nil pointer dereference'')), s)
      | Some (Local l) \<Rightarrow>
          (case stdin l of
             None \<Rightarrow> (Some (Crashed (Panic ''nil pointer dereference'')),
                      s\<lparr>trace := trace s @ [WriteClose a]\<rparr>)
           | Some _ \<Rightarrow> writeCloseAll rest (s\<lparr>trace := trace s @ [WriteClose a]\<rparr>))
      | Some (Remote r) \<Rightarrow> writeCloseAll rest (s\<lparr>trace := trace s @ [WriteClose a]\<rparr>))"

text \<open>
  The stdin pump (lines 192-205). \<open>writers\<close> are the stdin writers recorded by the start
  loop, \<open>clients\<close> is the list of all clients connected in phase A.
\<close>

definition stdinPump ::
  "Task \<Rightarrow> pipe option list \<Rightarrow> addr list \<Rightarrow> state \<Rightarrow> outcome option \<times> state" where
  "stdinPump task writers clients s =
     (case Input task of
        None \<Rightarrow> (None, s)
      | Some data \<Rightarrow>
          (case multiWrite writers data [] of
             Inl err \<Rightarrow> (Some (Crashed err), s)
           | Inr written \<Rightarrow> writeCloseAll clients (s\<lparr>trace := trace s @ written\<rparr>)))"

text \<open>The signal forwarder (lines 212-226): every interrupt goes to every client of the task.\<close>

definition forwardSignals :: "world \<Rightarrow> Task \<Rightarrow> state \<Rightarrow> state" where
  "forwardSignals w task s =
     s\<lparr>trace := trace s @ concat (replicate (interrupts w task) (map Signal (Clients task)))\<rparr>"

text \<open>
  The body of a waiter after \<open>c.Wait()\<close> has returned \<open>werr\<close> (lines 238-261); \<open>p\<close> is
  what \<open>c.Prefix()\<close> returns. \<open>None\<close>: the goroutine ends without effect. Otherwise the
  line printed to stderr and how the process ends.
\<close>

definition waiter ::
  "bool \<Rightarrow> int \<Rightarrow> string \<times> int \<Rightarrow> error option \<Rightarrow> (outcome \<times> event list) option" where
  "waiter sup_prefix maxLen p werr =
     (case werr of
        None \<Rightarrow> None
      | Some err \<Rightarrow>
          Some (case paddedPrefix sup_prefix maxLen p of
                  Inl pan \<Rightarrow> (Crashed pan, [])
                | Inr pre \<Rightarrow>
                    (case err of
                       SshExitError status \<Rightarrow>
                         if status \<noteq> 15 then (Exit status, [StderrError pre err])
                         else (Exit 1, [StderrError pre err])
                     | _ \<Rightarrow> (Exit 1, [StderrError pre err]))))"

text \<open>
  The goroutine started for one client of the task (lines 235-262): \<open>c.Wait()\<close>, then
  the body above. \<open>None\<close>: the goroutine ends and the run goes on.
\<close>

definition waitClient ::
  "world \<Rightarrow> Stackup \<Rightarrow> int \<Rightarrow> Task \<Rightarrow> addr \<Rightarrow> state \<Rightarrow> outcome option \<times> state" where
  "waitClient w app maxLen task a s =
     (case heap s a of
        None \<Rightarrow> (Some (Crashed (Panic ''nil pointer dereference'')), s)
      | Some c \<Rightarrow>
          (let (werr, c') = Client_Wait w a task c;
               s' = s\<lparr>heap := (heap s)(a \<mapsto> c')\<rparr>
           in case waiter (prefix app) maxLen (Client_Prefix w c') werr of
                None \<Rightarrow> (None, s')
              | Some (out, printed) \<Rightarrow> (Some out, s'\<lparr>trace := trace s' @ printed\<rparr>)))"

text \<open>The waiters of a task (lines 232-266).\<close>

fun waiters ::
  "world \<Rightarrow> Stackup \<Rightarrow> int \<Rightarrow> Task \<Rightarrow> addr list \<Rightarrow> state \<Rightarrow> outcome option \<times> state" where
  "waiters w app maxLen task [] s = (None, s)"
| "waiters w app maxLen task (a # rest) s =
     (case waitClient w app maxLen task a s of
        (Some out, s') \<Rightarrow> (Some out, s')
      | (None, s') \<Rightarrow> waiters w app maxLen task rest s')"

definition runTask ::
  "world \<Rightarrow> Stackup \<Rightarrow> int \<Rightarrow> addr list \<Rightarrow> Task \<Rightarrow> state \<Rightarrow> outcome option \<times> state" where
  "runTask w app maxLen clients task s =
     (case startClients w app maxLen task (Clients task) [] s of
        (Inl out, s1) \<Rightarrow> (Some out, s1)
      | (Inr writers, s1) \<Rightarrow>
          (case stdinPump task writers clients s1 of
             (Some out, s2) \<Rightarrow> (Some out, s2)
           | (None, s2) \<Rightarrow> waiters w app maxLen task (Clients task) (forwardSignals w task s2)))"

fun runTasks ::
  "world \<Rightarrow> Stackup \<Rightarrow> int \<Rightarrow> addr list \<Rightarrow> Task list \<Rightarrow> state \<Rightarrow> outcome option \<times> state" where
  "runTasks w app maxLen clients [] s = (None, s)"
| "runTasks w app maxLen clients (task # rest) s =
     (case runTask w app maxLen clients task s of
        (Some out, s') \<Rightarrow> (Some out, s')
      | (None, s') \<Rightarrow> runTasks w app maxLen clients rest s')"

text \<open>The loop over the commands (lines 129-272).\<close>

fun runCommands ::
  "world \<Rightarrow> Stackup \<Rightarrow> int \<Rightarrow> addr list \<Rightarrow> string \<Rightarrow> Command list \<Rightarrow> state
     \<Rightarrow> outcome option \<times> state" where
  "runCommands w app maxLen clients exports [] s = (None, s)"
| "runCommands w app maxLen clients exports (c # rest) s =
     (case createTasks w c clients exports (heap s) of
        Inl err \<Rightarrow> (Some (Return (Some (Joined err (ErrorString ''creating task failed'')))), s)
      | Inr (tasks, h) \<Rightarrow>
          (case runTasks w app maxLen clients tasks (s\<lparr>heap := h\<rparr>) of
             (Some out, s') \<Rightarrow> (Some out, s')
           | (None, s') \<Rightarrow> runCommands w app maxLen clients exports rest s'))"

subsection \<open>\<open>Stackup.Run\<close>\<close>

text \<open>\<open>closeRemotes\<close>, deferred: it runs when \<open>Run\<close> returns, not when the process exits.\<close>

fun closeRemotes :: "addr list \<Rightarrow> state \<Rightarrow> state" where
  "closeRemotes [] s = s"
| "closeRemotes (a # rest) s =
     (case heap s a of
        Some (Remote r) \<Rightarrow> closeRemotes rest (s\<lparr>trace := trace s @ [CloseRemote a]\<rparr>)
      | _ \<Rightarrow> closeRemotes rest s)"

fun firstPanic :: "(error + Client) list \<Rightarrow> error option" where
  "firstPanic [] = None"
| "firstPanic (Inl (Panic msg) # rest) = Some (Panic msg)"
| "firstPanic (_ # rest) = firstPanic rest"

definition alloc :: "Client list \<Rightarrow> store" where
  "alloc cs = (\<lambda>a. if a < length cs then Some (cs ! a) else None)"

text \<open>
  How \<open>Run\<close> ends: a \<open>return\<close> runs the deferred \<open>closeRemotes\<close>; \<open>os.Exit\<close> and a
  panic do not.
\<close>

definition finish :: "addr list \<Rightarrow> outcome option \<times> state \<Rightarrow> outcome \<times> event list" where
  "finish clients r =
     (case r of
        (Some (Return e), s) \<Rightarrow> (Return e, trace (closeRemotes clients s))
      | (Some out, s) \<Rightarrow> (out, trace s)
      | (None, s) \<Rightarrow> (Return None, trace (closeRemotes clients s)))"

text \<open>
  \<open>Run\<close> (lines 40-275). The connectors deliver in the order of the hosts; the clients
  they deliver are stored at the addresses \<open>0, 1, ...\<close> in that order. The result is how
  the run ends and everything it did.
\<close>

definition Stackup_Run ::
  "world \<Rightarrow> Stackup \<Rightarrow> Network \<Rightarrow> EnvList \<Rightarrow> Command list \<Rightarrow> outcome \<times> event list" where
  "Stackup_Run w app net envVars commands =
     (if length commands = 0 then (Return (Some (ErrorString ''no commands to be run'')), [])
      else
        (let exports = AsExport w envVars;
             bastion = (Bastion net \<noteq> []);
             dialled = (if bastion then [ConnectBastion (Bastion net)] else [])
         in case (if bastion then bastion_Connect w (Bastion net) else None) of
              Some err \<Rightarrow>
                (Return (Some (Joined err (ErrorString ''connecting to bastion failed''))), dialled)
            | None \<Rightarrow>
                (let results = map (\<lambda>(i, host). connector w exports net bastion i host)
                                   (enumerate 0 (Hosts net));
                     connected = dialled @ map ConnectHost (Hosts net)
                 in case firstPanic results of
                      Some pan \<Rightarrow> (Crashed pan, connected)
                    | None \<Rightarrow>
                        (let cs = [c. Inr c \<leftarrow> results];
                             errs = [e. Inl e \<leftarrow> results];
                             maxLen = maxLen_loop w cs 0;
                             clients = [0..<length cs];
                             s = \<lparr>heap = alloc cs, trace = connected\<rparr>
                         in case errs of
                              err # _ \<Rightarrow>
                                finish clients
                                  (Some (Return (Some (Joined err
                                     (ErrorString ''connecting to clients failed'')))), s)
                            | [] \<Rightarrow>
                                finish clients
                                  (runCommands w app maxLen clients exports commands s)))))"


section \<open>cmd/sup/main.go\<close>

definition ErrUsage :: error where
  "ErrUsage = ErrorString
     (''Usage: sup [OPTIONS] NETWORK COMMAND [...]'' @ [CHR 0x0A] @
      ''       sup [ --help | -v | --version ]'')"

definition ErrUnknownNetwork :: error where
  "ErrUnknownNetwork = ErrorString ''Unknown network''"

definition ErrNetworkNoHosts :: error where
  "ErrNetworkNoHosts = ErrorString ''No hosts defined for a given network''"

text \<open>\<open>fmt.Errorf("%v: %v", ErrCmd, name)\<close>\<close>

definition ErrCmd :: "string \<Rightarrow> error" where
  "ErrCmd name = ErrorString (''Unknown command/target'' @ '': '' @ name)"

text \<open>
  The flags the program reads (package \<open>flags\<close> is not part of the sources); an unset
  string flag is empty. \<open>EnvVars\<close> holds the \<open>-e KEY=VAL\<close> options in the order given,
  each as its key and its value.
\<close>

record Flags =
  OnlyHosts :: string
  ExceptHosts :: string
  SshConfig :: string
  EnvVars :: "(string \<times> string) list"
  Debug :: bool
  DisablePrefix :: bool

text \<open>The reading of the clock, \<open>time.Now().UTC()\<close>.\<close>

record Time =
  year :: nat
  month :: nat
  day :: nat
  hour :: nat
  minute :: nat
  second :: nat

text \<open>
  \<open>Format(time.RFC3339)\<close> of a UTC time (standard library): the decimal fields, zero-padded
  to four digits for the year and to two for the others, the zone written \<open>Z\<close>.
\<close>

fun digits :: "nat \<Rightarrow> string" where
  "digits n = (if n < 10 then [''0123456789'' ! n] else digits (n div 10) @ [''0123456789'' ! (n mod 10)])"

declare digits.simps [simp del]

definition appendInt :: "nat \<Rightarrow> nat \<Rightarrow> string" where
  "appendInt x width = replicate (width - length (digits x)) CHR ''0'' @ digits x"

definition Format_RFC3339 :: "Time \<Rightarrow> string" where
  "Format_RFC3339 t =
     appendInt (year t) 4 @ ''-'' @ appendInt (month t) 2 @ ''-'' @ appendInt (day t) 2 @ ''T'' @
     appendInt (hour t) 2 @ '':'' @ appendInt (minute t) 2 @ '':'' @ appendInt (second t) 2 @ ''Z''"

text \<open>\<open>sshconfig.SSHHost\<close> (an external library): the fields \<open>main\<close> reads.\<close>

record SSHHost =
  Host :: "string list"
  HostName :: string
  Port :: int
  User_host :: string
  IdentityFile_host :: string

text \<open>
  What \<open>main\<close> and \<open>parseArgs\<close> consult outside the sources: the arguments left after the
  flags, the process environment, the clock, the regular-expression compiler, and the
  methods of \<open>network.Network\<close> and \<open>envs.EnvList\<close> that are not part of the sources.
\<close>

record main_world =
  Args :: "string list"                                   \<comment> \<open>\<open>flags.Args()\<close>\<close>
  Getenv :: "string \<Rightarrow> string"                           \<comment> \<open>\<open>os.Getenv\<close>\<close>
  Now :: Time                                             \<comment> \<open>\<open>time.Now().UTC()\<close>\<close>
  CompilePOSIX :: "string \<Rightarrow> error + (string \<Rightarrow> bool)"   \<comment> \<open>the compiled expression's \<open>MatchString\<close>\<close>
  net_SetEnvs :: "(string \<times> string) list \<Rightarrow> Network \<Rightarrow> Network"  \<comment> \<open>\<open>net.SetEnvs(flag.EnvVars)\<close>\<close>
  ParseInventory :: "Network \<Rightarrow> error + string list"     \<comment> \<open>\<open>net.ParseInventory()\<close>\<close>
  ParseSSHConfig :: "string \<Rightarrow> error + SSHHost list"   \<comment> \<open>\<open>sshconfig.ParseSSHConfig\<close>\<close>
  HomeDir :: "error + string"                             \<comment> \<open>\<open>user.Current()\<close> and its \<open>HomeDir\<close>\<close>
  filepath_Join :: "string \<Rightarrow> string \<Rightarrow> string"          \<comment> \<open>\<open>filepath.Join\<close>\<close>
  SetEnvs_error :: "(string \<times> string) list \<Rightarrow> error option"  \<comment> \<open>the error of \<open>vars.SetEnvs\<close>, if any\<close>

subsection \<open>\<open>parseArgs\<close>\<close>

text \<open>The default environment entries (lines 100-114).\<close>

definition defaultEnv :: "main_world \<Rightarrow> string \<Rightarrow> EnvList \<Rightarrow> EnvList" where
  "defaultEnv mw network e =
     (let e1 = Set_env e ''SUP_NETWORK'' network;
          e2 = Set_env e1 ''SUP_TIME'' (Format_RFC3339 (Now mw));
          e3 = (if Getenv mw ''SUP_TIME'' \<noteq> [] then Set_env e2 ''SUP_TIME'' (Getenv mw ''SUP_TIME'')
                else e2)
      in if Getenv mw ''SUP_USER'' \<noteq> [] then Set_env e3 ''SUP_USER'' (Getenv mw ''SUP_USER'')
         else Set_env e3 ''SUP_USER'' (Getenv mw ''USER''))"

text \<open>The loop over a target's commands (lines 121-130).\<close>

fun targetCommands ::
  "Supfile \<Rightarrow> string list \<Rightarrow> Command list \<Rightarrow> error + Command list" where
  "targetCommands conf [] commands = Inr commands"
| "targetCommands conf (cmdName # rest) commands =
     (case Commands conf cmdName of
        None \<Rightarrow> Inl (ErrCmd cmdName)
      | Some c \<Rightarrow> targetCommands conf rest (commands @ [c\<lparr>Name := cmdName\<rparr>]))"

text \<open>The loop over the arguments after the network (lines 116-144).\<close>

fun parseNames :: "Supfile \<Rightarrow> string list \<Rightarrow> Command list \<Rightarrow> error + Command list" where
  "parseNames conf [] commands = Inr commands"
| "parseNames conf (name # rest) commands =
     (case (case Targets conf name of
              Some target \<Rightarrow> targetCommands conf target commands
            | None \<Rightarrow> Inr commands) of
        Inl err \<Rightarrow> Inl err
      | Inr commands1 \<Rightarrow>
          (let commands2 = (case Commands conf name of
                              Some c \<Rightarrow> commands1 @ [c\<lparr>Name := name\<rparr>]
                            | None \<Rightarrow> commands1)
           in if Targets conf name = None \<and> Commands conf name = None then Inl (ErrCmd name)
              else parseNames conf rest commands2))"

text \<open>\<open>parseArgs\<close> (lines 58-147); the usage texts it prints are left out.\<close>

definition parseArgs ::
  "main_world \<Rightarrow> Flags \<Rightarrow> Supfile \<Rightarrow> error + Network \<times> Command list" where
  "parseArgs mw flag conf =
     (let args = Args mw
      in if length args < 1 then Inl ErrUsage
         else
           (case Networks conf (args ! 0) of
              None \<Rightarrow> Inl ErrUnknownNetwork
            | Some net0 \<Rightarrow>
                (let net1 = net_SetEnvs mw (EnvVars flag) net0
                 in case ParseInventory mw net1 of
                      Inl err \<Rightarrow> Inl err
                    | Inr hosts \<Rightarrow>
                        (let net2 = net1\<lparr>Hosts := Hosts net1 @ hosts\<rparr>
                         in if length (Hosts net2) = 0 then Inl ErrNetworkNoHosts
                            else if length args < 2 then Inl ErrUsage
                            else
                              (let net3 = net2\<lparr>Env := defaultEnv mw (args ! 0) (Env net2)\<rparr>
                               in case parseNames conf (tl args) [] of
                                    Inl err \<Rightarrow> Inl err
                                  | Inr commands \<Rightarrow> Inr (net3, commands))))))"

subsection \<open>\<open>main\<close>\<close>

text \<open>The two loops that select hosts (lines 218-222 and 242-246).\<close>

fun matchingHosts :: "(string \<Rightarrow> bool) \<Rightarrow> string list \<Rightarrow> string list \<Rightarrow> string list" where
  "matchingHosts expr [] hosts = hosts"
| "matchingHosts expr (host # rest) hosts =
     matchingHosts expr rest (if expr host then hosts @ [host] else hosts)"

fun otherHosts :: "(string \<Rightarrow> bool) \<Rightarrow> string list \<Rightarrow> string list \<Rightarrow> string list" where
  "otherHosts expr [] hosts = hosts"
| "otherHosts expr (host # rest) hosts =
     otherHosts expr rest (if \<not> expr host then hosts @ [host] else hosts)"

text \<open>\<open>fmt.Fprintln(os.Stderr, err); os.Exit(1)\<close>\<close>

definition fail :: "event list \<Rightarrow> error \<Rightarrow> outcome \<times> event list" where
  "fail tr err = (Exit 1, tr @ [StderrError [] err])"

text \<open>The \<open>--only\<close> flag (lines 208-230).\<close>

definition onlyHosts :: "main_world \<Rightarrow> Flags \<Rightarrow> Network \<Rightarrow> outcome \<times> event list + Network" where
  "onlyHosts mw flag net =
     (if OnlyHosts flag \<noteq> [] then
        (case CompilePOSIX mw (OnlyHosts flag) of
           Inl err \<Rightarrow> Inl (fail [] err)
         | Inr expr \<Rightarrow>
             (let hosts = matchingHosts expr (Hosts net) []
              in if length hosts = 0 then
                   Inl (fail [] (ErrorString
                     (''no hosts match --only '' @ [CHR 0x27] @ OnlyHosts flag @ [CHR 0x27] @ '' regexp'')))
                 else Inr (net\<lparr>Hosts := hosts\<rparr>)))
      else Inr net)"

text \<open>The \<open>--except\<close> flag (lines 232-254); its message quotes the \<open>--only\<close> flag.\<close>

definition exceptHosts :: "main_world \<Rightarrow> Flags \<Rightarrow> Network \<Rightarrow> outcome \<times> event list + Network" where
  "exceptHosts mw flag net =
     (if ExceptHosts flag \<noteq> [] then
        (case CompilePOSIX mw (ExceptHosts flag) of
           Inl err \<Rightarrow> Inl (fail [] err)
         | Inr expr \<Rightarrow>
             (let hosts = otherHosts expr (Hosts net) []
              in if length hosts = 0 then
                   Inl (fail [] (ErrorString
                     (''no hosts left after --except '' @ [CHR 0x27] @ OnlyHosts flag @ [CHR 0x27] @
                      '' regexp'')))
                 else Inr (net\<lparr>Hosts := hosts\<rparr>)))
      else Inr net)"

text \<open>\<open>resolvePath\<close> (lines 149-162); slicing \<open>path[:2]\<close> of a one-byte path panics.\<close>

definition resolvePath :: "main_world \<Rightarrow> string \<Rightarrow> error + string" where
  "resolvePath mw path =
     (if path = [] then Inr []
      else if length path < 2 then Inl (Panic ''slice bounds out of range'')
      else if take 2 path = ''~/'' then
        (case HomeDir mw of
           Inr home \<Rightarrow> Inr (filepath_Join mw home (drop 2 path))
         | Inl _ \<Rightarrow> Inr path)
      else Inr path)"

text \<open>The \<open>--sshconfig\<close> flag (lines 256-283). \<open>%d\<close> prints the port in decimal.\<close>

definition itoa :: "int \<Rightarrow> string" where
  "itoa i = (if i < 0 then ''-'' @ digits (nat (- i)) else digits (nat i))"

fun flattenHosts :: "SSHHost list \<Rightarrow> (string \<rightharpoonup> SSHHost) \<Rightarrow> (string \<rightharpoonup> SSHHost)" where
  "flattenHosts [] confMap = confMap"
| "flattenHosts (c # rest) confMap =
     flattenHosts rest (fold (\<lambda>host m. m(host \<mapsto> c)) (Host c) confMap)"

fun rewriteHosts ::
  "main_world \<Rightarrow> (string \<rightharpoonup> SSHHost) \<Rightarrow> string list \<Rightarrow> Network \<Rightarrow> error + Network" where
  "rewriteHosts mw confMap [] net = Inr net"
| "rewriteHosts mw confMap (host # rest) net =
     (case confMap host of
        None \<Rightarrow> rewriteHosts mw confMap rest net
      | Some c \<Rightarrow>
          (case resolvePath mw (IdentityFile_host c) of
             Inl pan \<Rightarrow> Inl pan
           | Inr file \<Rightarrow>
               rewriteHosts mw confMap rest
                 (net\<lparr>User := User_host c, IdentityFile := file,
                      Hosts := [HostName c @ '':'' @ itoa (Port c)]\<rparr>)))"

definition sshConfig :: "main_world \<Rightarrow> Flags \<Rightarrow> Network \<Rightarrow> outcome \<times> event list + Network" where
  "sshConfig mw flag net =
     (if SshConfig flag \<noteq> [] then
        (case resolvePath mw (SshConfig flag) of
           Inl pan \<Rightarrow> Inl (Crashed pan, [])
         | Inr file \<Rightarrow>
             (case ParseSSHConfig mw file of
                Inl err \<Rightarrow> Inl (fail [] err)
              | Inr confHosts \<Rightarrow>
                  (case rewriteHosts mw (flattenHosts confHosts Map.empty) (Hosts net) net of
                     Inl pan \<Rightarrow> Inl (Crashed pan, [])
                   | Inr net1 \<Rightarrow> Inr net1)))
      else Inr net)"

text \<open>\<open>vars.Set(val.Key, val.Value)\<close> for every entry of a list, in its order (lines 287-289).\<close>

fun setAll :: "EnvList \<Rightarrow> EnvList \<Rightarrow> EnvList" where
  "setAll [] vars = vars"
| "setAll ((key, val) # rest) vars = setAll rest (Set_env vars key val)"

text \<open>
  Modelled from the spec: \<open>EnvList.SetEnvs\<close> (package \<open>envs\<close> is not part of the sources):
  "\<open>-e KEY=VAL\<close> adds or overrides an environment entry (repeatable)", the "later sources
  overriding earlier". When it returns an error is not described: that is the parameter
  \<open>SetEnvs_error\<close>.
\<close>

definition SetEnvs :: "main_world \<Rightarrow> (string \<times> string) list \<Rightarrow> EnvList \<Rightarrow> error + EnvList" where
  "SetEnvs mw entries vars =
     (case SetEnvs_error mw entries of
        Some err \<Rightarrow> Inl err
      | None \<Rightarrow> Inr (setAll entries vars))"

text \<open>
  The variable \<open>vars\<close> of \<open>main\<close> (lines 285-294), the environment handed to \<open>Run\<close>: the
  entries of the configuration, then those of the network, then the \<open>-e\<close> options.
\<close>

definition mainVars :: "main_world \<Rightarrow> Flags \<Rightarrow> Supfile \<Rightarrow> Network \<Rightarrow> error + EnvList" where
  "mainVars mw flag conf net = SetEnvs mw (EnvVars flag) (setAll (ConfEnv conf @ Env net) [])"

text \<open>
  \<open>main\<close> from the call of \<open>parseArgs\<close> on (lines 201-312), for a configuration \<open>conf\<close>
  that was read and parsed. A run that returns without error leaves \<open>main\<close> at its end:
  exit status 0.
\<close>

definition main :: "main_world \<Rightarrow> world \<Rightarrow> Flags \<Rightarrow> Supfile \<Rightarrow> outcome \<times> event list" where
  "main mw w flag conf =
     (case parseArgs mw flag conf of
        Inl err \<Rightarrow> fail [] err
      | Inr (net, commands) \<Rightarrow>
          (case onlyHosts mw flag net of
             Inl stop \<Rightarrow> stop
           | Inr net1 \<Rightarrow>
               (case exceptHosts mw flag net1 of
                  Inl stop \<Rightarrow> stop
                | Inr net2 \<Rightarrow>
                    (case sshConfig mw flag net2 of
                       Inl stop \<Rightarrow> stop
                     | Inr net3 \<Rightarrow>
                         (case mainVars mw flag conf net3 of
                            Inl err \<Rightarrow> fail [] err
                          | Inr vars \<Rightarrow>
                              (let app = \<lparr>conf_sup = conf, debug = Debug flag,
                                          prefix = \<not> DisablePrefix flag\<rparr>
                               in case Stackup_Run w app net3 vars commands of
                                    (Return (Some err), tr) \<Rightarrow> fail tr err
                                  | (Return None, tr) \<Rightarrow> (Exit 0, tr)
                                  | stop \<Rightarrow> stop))))))"


section \<open>Notions of the specification\<close>

text \<open>
  The printable part of a string: what is left when the terminal escape sequences (from
  the escape byte to the next \<open>m\<close>) are removed. The flag says whether the scan is inside
  an escape sequence.
\<close>

fun printable :: "bool \<Rightarrow> string \<Rightarrow> string" where
  "printable esc [] = []"
| "printable True (c # cs) = (if c = CHR ''m'' then printable False cs else printable True cs)"
| "printable False (c # cs) =
     (if c = CHR 0x1B then printable True cs else c # printable False cs)"


text \<open>
  The dispatch as the specification words it: a name is "either a command name or a
  target name (resolved in that order)".
\<close>

definition resolve_spec :: "Supfile \<Rightarrow> string \<Rightarrow> error + Command list" where
  "resolve_spec conf name =
     (case Commands conf name of
        Some c \<Rightarrow> Inr [c\<lparr>Name := name\<rparr>]
      | None \<Rightarrow>
          (case Targets conf name of
             Some target \<Rightarrow> targetCommands conf target []
           | None \<Rightarrow> Inl (ErrCmd name)))"

fun dispatch_spec :: "Supfile \<Rightarrow> string list \<Rightarrow> Command list \<Rightarrow> error + Command list" where
  "dispatch_spec conf [] commands = Inr commands"
| "dispatch_spec conf (name # rest) commands =
     (case resolve_spec conf name of
        Inl err \<Rightarrow> Inl err
      | Inr cs \<Rightarrow> dispatch_spec conf rest (commands @ cs))"

text \<open>
  What one argument contributes in the source: the commands of the target of that name,
  then the command of that name. An argument can be dispatched when it names a target or
  a command, and every member of the target it names is a command.
\<close>

definition named :: "Supfile \<Rightarrow> string \<Rightarrow> Command list" where
  "named conf name = (case Commands conf name of Some c \<Rightarrow> [c\<lparr>Name := name\<rparr>] | None \<Rightarrow> [])"

definition contribution :: "Supfile \<Rightarrow> string \<Rightarrow> Command list" where
  "contribution conf name =
     (case Targets conf name of
        Some target \<Rightarrow> concat (map (named conf) target)
      | None \<Rightarrow> [])
     @ named conf name"

definition resolvable :: "Supfile \<Rightarrow> string \<Rightarrow> bool" where
  "resolvable conf name =
     (case Targets conf name of
        Some target \<Rightarrow> list_all (\<lambda>n. Commands conf n \<noteq> None) target
      | None \<Rightarrow> Commands conf name \<noteq> None)"



section \<open>Concrete runs\<close>

text \<open>
  A world in which every connection and every start succeeds, every task prints the line
  \<open>hi\<close> and exits with status 0, and the operator sends no interrupt. A command becomes
  one task over all clients, or over the first client when it has \<open>once\<close>; its input is
  \<open>abc\<close> and a newline when it has \<open>stdin\<close>.
\<close>

definition world0 :: world where
  "world0 =
     \<lparr>ResetColor = [CHR 0x1B, CHR ''['', CHR ''0'', CHR ''m''],
      Colors = [[CHR 0x1B, CHR ''['', CHR ''3'', CHR ''1'', CHR ''m''],
                [CHR 0x1B, CHR ''['', CHR ''3'', CHR ''2'', CHR ''m'']],
      AsExport = (\<lambda>e. concat (map (\<lambda>(k, v). ''export '' @ k @ ''=\"'' @ v @ ''\";'') e)),
      user_Current = Inr ''root'',
      bastion_Connect = (\<lambda>_. None),
      ssh_Connect = (\<lambda>h c. (None, c\<lparr>host_ssh := h\<rparr>)),
      ssh_ConnectWith = (\<lambda>h c. (None, c\<lparr>host_ssh := h\<rparr>)),
      ssh_Run = (\<lambda>t c. if running_ssh c then (Some (ErrorString ''Session already running''), c)
                         else (None, c\<lparr>running_ssh := True, stdin_ssh := Some 9\<rparr>)),
      ssh_Wait = (\<lambda>t c. (None, c\<lparr>running_ssh := False\<rparr>)),
      createTasks = (\<lambda>c clients exports h.
         Inr ([\<lparr>Run = RunSnippet c,
                 Clients = (if Once c then take 1 clients else clients),
                 Input = (if Stdin c then Some (''abc'' @ [CHR 0x0A]) else None)\<rparr>], h)),
      exec = (\<lambda>a t. \<lparr>StdoutPipe = Inr (3 * a + 3), StderrPipe = Inr (3 * a + 4),
                      StdinPipe = Inr (3 * a + 5), Start = None\<rparr>),
      cmd_Wait = (\<lambda>a t. None),
      proc_output = (\<lambda>a t. ([''hi''], [])),
      interrupts = (\<lambda>t. 0)\<rparr>"


definition net0 :: Network where
  "net0 = \<lparr>User = ''root'', Bastion = [], Hosts = [''localhost'', ''10.0.0.1:22''], Env = [],
           IdentityFile = []\<rparr>"


definition cmd0 :: Command where
  "cmd0 = \<lparr>Name = ''hello'', Desc = [], Local = [], RunSnippet = ''echo hi'', Script = [],
           Stdin = False, Once = False, Serial = 0\<rparr>"

definition cmd_once_stdin :: Command where
  "cmd_once_stdin = \<lparr>Name = ''feed'', Desc = [], Local = [], RunSnippet = ''cat'', Script = [],
                     Stdin = True, Once = True, Serial = 0\<rparr>"

definition conf0 :: Supfile where
  "conf0 = \<lparr>Networks = [''dev'' \<mapsto> net0],
            Commands = [''build'' \<mapsto> cmd0\<lparr>RunSnippet := ''make''\<rparr>,
                        ''deploy'' \<mapsto> cmd0\<lparr>RunSnippet := ''make install''\<rparr>],
            Targets = [''deploy'' \<mapsto> [''build'', ''deploy'']],
            ConfEnv = []\<rparr>"

text \<open>
  The surroundings of \<open>main\<close>: the arguments \<open>dev build\<close>, an environment with \<open>USER\<close>
  only, the clock at 2024-03-09 07:05:30 UTC, a compiler for the expressions \<open>^text\<close>
  (a host matches when it starts with \<open>text\<close>), no inventory, \<open>-e\<close> options that are all
  accepted and that the network ignores.
\<close>

definition mw0 :: main_world where
  "mw0 =
     \<lparr>Args = [''dev'', ''build''],
      Getenv = (\<lambda>k. if k = ''USER'' then ''root'' else []),
      Now = \<lparr>year = 2024, month = 3, day = 9, hour = 7, minute = 5, second = 30\<rparr>,
      CompilePOSIX = (\<lambda>re. case re of
                              [] \<Rightarrow> Inl (ErrorString ''empty expression'')
                            | c # text \<Rightarrow>
                                if c = CHR ''^'' then Inr (\<lambda>h. take (length text) h = text)
                                else Inl (ErrorString ''unsupported expression'')),
      net_SetEnvs = (\<lambda>vars net. net),
      ParseInventory = (\<lambda>net. Inr []),
      ParseSSHConfig = (\<lambda>file. Inr []),
      HomeDir = Inr ''/root'',
      filepath_Join = (\<lambda>a b. a @ ''/'' @ b),
      SetEnvs_error = (\<lambda>entries. None)\<rparr>"

definition flags0 :: Flags where
  "flags0 = \<lparr>OnlyHosts = [], ExceptHosts = [], SshConfig = [], EnvVars = [], Debug = False,
             DisablePrefix = False\<rparr>"

definition app0 :: Stackup where
  "app0 = \<lparr>conf_sup = conf0, debug = False, prefix = True\<rparr>"

definition local0 :: LocalhostClient where
  "local0 = \<lparr>cmd = None, user = ''root'', stdin = None, stdout = None, stderr = None,
             running = False, env = ''export SUP_HOST=\"localhost\";''\<rparr>"

definition remote0 :: SSHClient where
  "remote0 = \<lparr>env_ssh = ''export SUP_HOST=\"10.0.0.1:22\";'', user_ssh = ''root'',
              color = [CHR 0x1B, CHR ''['', CHR ''3'', CHR ''2'', CHR ''m''],
              host_ssh = ''10.0.0.1:22'', running_ssh = False, stdin_ssh = None\<rparr>"

section \<open>Properties of the local client\<close>

text \<open>
  C6. \<open>LocalhostClient.Run\<close>: on a running client it returns the error
  "Command already running" and leaves the client as it was, still running. On a client
  that is not running it succeeds exactly when the three pipe requests and \<open>Start\<close>
  succeed; then the command is \<open>bash\<close> with the arguments \<open>-c\<close> and the client's env
  exports followed by the task's snippet, the three endpoints are the pipes the operating
  system handed out (none is nil), and the client is running.
\<close>

theorem LocalhostClient_Run_transitions:
  "(running c \<longrightarrow>
      LocalhostClient_Run os t c = (Some (ErrorString ''Command already running''), c)) \<and>
   (\<not> running c \<longrightarrow>
      (fst (LocalhostClient_Run os t c) = None) =
        ((\<exists>out. StdoutPipe os = Inr out) \<and> (\<exists>er. StderrPipe os = Inr er) \<and>
         (\<exists>inp. StdinPipe os = Inr inp) \<and> Start os = None)) \<and>
   (\<not> running c \<and> fst (LocalhostClient_Run os t c) = None \<longrightarrow>
      (let c' = snd (LocalhostClient_Run os t c)
       in cmd c' = Some \<lparr>Path = ''bash'', Args = [''bash'', ''-c'', env c @ Run t]\<rparr> \<and>
          Start os = None \<and>
          Inr (the (stdout c')) = StdoutPipe os \<and> stdout c' \<noteq> None \<and>
          Inr (the (stderr c')) = StderrPipe os \<and> stderr c' \<noteq> None \<and>
          Inr (the (stdin c')) = StdinPipe os \<and> stdin c' \<noteq> None \<and>
          running c' \<and> user c' = user c \<and> env c' = env c))"
  by (auto simp: LocalhostClient_Run_def exec_Command_def Let_def split: sum.splits option.splits)

theorem LocalhostClient_Run_transitions_witness:
  "LocalhostClient_Run
      \<lparr>StdoutPipe = Inr 3, StderrPipe = Inr 4, StdinPipe = Inr 5, Start = None\<rparr>
      \<lparr>Run = ''echo hi'', Clients = [0], Input = None\<rparr>
      \<lparr>cmd = None, user = ''root'', stdin = None, stdout = None, stderr = None,
        running = False, env = ''export A=\"1\";''\<rparr>
    = (None,
       \<lparr>cmd = Some \<lparr>Path = ''bash'', Args = [''bash'', ''-c'', ''export A=\"1\";echo hi'']\<rparr>,
        user = ''root'', stdin = Some 5, stdout = Some 3, stderr = Some 4,
        running = True, env = ''export A=\"1\";''\<rparr>) \<and>
   LocalhostClient_Run
      \<lparr>StdoutPipe = Inr 3, StderrPipe = Inr 4, StdinPipe = Inr 5, Start = None\<rparr>
      \<lparr>Run = ''echo hi'', Clients = [0], Input = None\<rparr>
      \<lparr>cmd = None, user = ''root'', stdin = Some 5, stdout = Some 3, stderr = Some 4,
        running = True, env = ''export A=\"1\";''\<rparr>
    = (Some (ErrorString ''Command already running''),
       \<lparr>cmd = None, user = ''root'', stdin = Some 5, stdout = Some 3, stderr = Some 4,
        running = True, env = ''export A=\"1\";''\<rparr>)"
  using LocalhostClient_Run_transitions
    [of "\<lparr>cmd = None, user = ''root'', stdin = None, stdout = None, stderr = None,
          running = False, env = ''export A=\"1\";''\<rparr>"
        "\<lparr>StdoutPipe = Inr 3, StderrPipe = Inr 4, StdinPipe = Inr 5, Start = None\<rparr>"
        "\<lparr>Run = ''echo hi'', Clients = [0], Input = None\<rparr>"]
    LocalhostClient_Run_transitions
    [of "\<lparr>cmd = None, user = ''root'', stdin = Some 5, stdout = Some 3, stderr = Some 4,
          running = True, env = ''export A=\"1\";''\<rparr>"
        "\<lparr>StdoutPipe = Inr 3, StderrPipe = Inr 4, StdinPipe = Inr 5, Start = None\<rparr>"
        "\<lparr>Run = ''echo hi'', Clients = [0], Input = None\<rparr>"]
  by (simp add: LocalhostClient_Run_def exec_Command_def)

text \<open>
  C7. \<open>LocalhostClient.Prefix\<close> returns the color-reset escape followed by
  \<open>u@localhost | \<close> for the client's user \<open>u\<close>, and the length of \<open>u@localhost | \<close>
  alone: the length of the returned string less the length of the escape.
\<close>

theorem LocalhostClient_Prefix_value:
  "fst (LocalhostClient_Prefix reset c) = reset @ user c @ ''@localhost | '' \<and>
   snd (LocalhostClient_Prefix reset c) = int (length (user c @ ''@localhost | '')) \<and>
   snd (LocalhostClient_Prefix reset c) =
     int (length (fst (LocalhostClient_Prefix reset c))) - int (length reset)"
  by (simp add: LocalhostClient_Prefix_def Let_def)

section \<open>Properties of \<open>Stackup.Run\<close>\<close>

text \<open>
  C10. \<open>Stackup.Run\<close> with an empty command list returns the error
  "no commands to be run", for every network and environment, and its trace is empty:
  no bastion is dialled, no host is connected, nothing is started.
\<close>

theorem Run_without_commands:
  "Stackup_Run w app net envVars [] = (Return (Some (ErrorString ''no commands to be run'')), [])"
  by (simp add: Stackup_Run_def)

theorem Run_without_commands_witness:
  "Stackup_Run world0 app0 net0 [] [] = (Return (Some (ErrorString ''no commands to be run'')), [])"
  using Run_without_commands [of world0 app0 net0 "[]"] by simp



text \<open>
  The padded prefix of a client never panics: the length a client's \<open>Prefix\<close> reports is at
  most the length of the prefix, so the repeat count is positive where it is used.
\<close>

lemma paddedPrefix_Client:
  "paddedPrefix sp maxLen (Client_Prefix w c) =
     Inr (if sp then
            (if int (length (fst (Client_Prefix w c))) < maxLen
             then replicate (nat (maxLen - snd (Client_Prefix w c))) CHR '' '' @ fst (Client_Prefix w c)
             else fst (Client_Prefix w c))
          else [])"
proof -
  have le: "snd (Client_Prefix w c) \<le> int (length (fst (Client_Prefix w c)))"
    by (cases c) (simp_all add: Client_Prefix_def LocalhostClient_Prefix_def SSHClient_Prefix_def Let_def)
  obtain p n where pn: "Client_Prefix w c = (p, n)" by (cases "Client_Prefix w c")
  with le show ?thesis
    by (auto simp: paddedPrefix_def strings_Repeat_def)
qed




text \<open>
  C2 fails on the code: the guard of the left padding compares \<open>maxLen\<close> with the length
  of the whole prefix, escape bytes included, and the padding it guards is computed from
  the printable length. A network of \<open>localhost\<close> and \<open>10.0.0.1:22\<close>, user \<open>root\<close>: the
  widest printable prefix is \<open>root@10.0.0.1:22 | \<close>, 19 bytes, so \<open>maxLen\<close> is 19; the
  local client's prefix is 21 bytes long, 17 of them printable, 21 is not less than 19,
  and the prefix is emitted without padding: the lines of the two hosts are not aligned.
\<close>

theorem padding_misses_maxLen:
  "maxLen_loop world0 [Local local0, Remote remote0] 0 = 19 \<and>
   Client_Prefix world0 (Local local0) =
     ([CHR 0x1B, CHR ''['', CHR ''0'', CHR ''m''] @ ''root@localhost | '', 17) \<and>
   paddedPrefix True 19 (Client_Prefix world0 (Local local0)) =
     Inr ([CHR 0x1B, CHR ''['', CHR ''0'', CHR ''m''] @ ''root@localhost | '') \<and>
   length (printable False ([CHR 0x1B, CHR ''['', CHR ''0'', CHR ''m''] @ ''root@localhost | '')) = 17 \<and>
   Stackup_Run world0 app0 net0 [] [cmd0] =
     (Return None,
      [ConnectHost ''localhost'', ConnectHost ''10.0.0.1:22'',
       Started 0 \<lparr>Run = ''echo hi'', Clients = [0, 1], Input = None\<rparr>,
       Stdout ([CHR 0x1B, CHR ''['', CHR ''0'', CHR ''m''] @ ''root@localhost | hi''),
       Started 1 \<lparr>Run = ''echo hi'', Clients = [0, 1], Input = None\<rparr>,
       Stdout ([CHR 0x1B, CHR ''['', CHR ''3'', CHR ''2'', CHR ''m''] @ ''root@10.0.0.1:22 | hi''),
       CloseRemote 1])"
  by code_simp

text \<open>
  C3 fails on the code: after the copy the pump calls \<open>WriteClose\<close> on every client
  connected in phase A, not on the clients of the task. A network of two hosts and two
  commands, the second with \<open>once\<close> and \<open>stdin\<close>: its task has the first client only,
  the input is written to that client's stdin writer only, and then the stdin of both
  clients is closed.
\<close>

theorem stdin_pump_closes_every_connected_client:
  "Stackup_Run world0 app0 net0 [] [cmd0, cmd_once_stdin] =
     (Return None,
      [ConnectHost ''localhost'', ConnectHost ''10.0.0.1:22'',
       Started 0 \<lparr>Run = ''echo hi'', Clients = [0, 1], Input = None\<rparr>,
       Stdout ([CHR 0x1B, CHR ''['', CHR ''0'', CHR ''m''] @ ''root@localhost | hi''),
       Started 1 \<lparr>Run = ''echo hi'', Clients = [0, 1], Input = None\<rparr>,
       Stdout ([CHR 0x1B, CHR ''['', CHR ''3'', CHR ''2'', CHR ''m''] @ ''root@10.0.0.1:22 | hi''),
       Started 0 \<lparr>Run = ''cat'', Clients = [0], Input = Some (''abc'' @ [CHR 0x0A])\<rparr>,
       Stdout ([CHR 0x1B, CHR ''['', CHR ''0'', CHR ''m''] @ ''root@localhost | hi''),
       StdinWrite 5 (''abc'' @ [CHR 0x0A]), WriteClose 0, WriteClose 1,
       CloseRemote 1])"
  by code_simp

section \<open>Properties of \<open>parseArgs\<close> and \<open>main\<close>\<close>

subsection \<open>The loops\<close>

lemma targetCommands_ok:
  "list_all (\<lambda>n. Commands conf n \<noteq> None) target \<Longrightarrow>
   targetCommands conf target acc = Inr (acc @ concat (map (named conf) target))"
  by (induction target arbitrary: acc) (auto simp: named_def)

lemma targetCommands_fails:
  "\<not> list_all (\<lambda>n. Commands conf n \<noteq> None) target \<Longrightarrow>
   \<exists>n. targetCommands conf target acc = Inl (ErrCmd n) \<and> Commands conf n = None"
  by (induction target arbitrary: acc) (auto split: option.splits)

lemma parseNames_ok:
  "list_all (resolvable conf) names \<Longrightarrow>
   parseNames conf names acc = Inr (acc @ concat (map (contribution conf) names))"
proof (induction names arbitrary: acc)
  case Nil
  then show ?case by simp
next
  case (Cons name rest)
  then have here: "resolvable conf name" and later: "list_all (resolvable conf) rest" by simp_all
  show ?case
  proof (cases "Targets conf name")
    case None
    with here obtain c where "Commands conf name = Some c" by (auto simp: resolvable_def)
    with None Cons.IH [OF later] show ?thesis
      by (simp add: contribution_def named_def)
  next
    case (Some target)
    with here have "list_all (\<lambda>n. Commands conf n \<noteq> None) target" by (simp add: resolvable_def)
    then have tc: "targetCommands conf target acc = Inr (acc @ concat (map (named conf) target))"
      by (rule targetCommands_ok)
    with Some Cons.IH [OF later] show ?thesis
      by (cases "Commands conf name") (simp_all add: contribution_def named_def)
  qed
qed

lemma parseNames_fails:
  "\<not> list_all (resolvable conf) names \<Longrightarrow>
   \<exists>n. parseNames conf names acc = Inl (ErrCmd n) \<and> Commands conf n = None"
proof (induction names arbitrary: acc)
  case Nil
  then show ?case by simp
next
  case (Cons name rest)
  show ?case
  proof (cases "resolvable conf name")
    case False
    show ?thesis
    proof (cases "Targets conf name")
      case None
      with False show ?thesis by (auto simp: resolvable_def)
    next
      case (Some target)
      with False have "\<not> list_all (\<lambda>n. Commands conf n \<noteq> None) target" by (simp add: resolvable_def)
      from targetCommands_fails [OF this, of acc] Some show ?thesis by auto
    qed
  next
    case True
    with Cons.prems have later: "\<not> list_all (resolvable conf) rest" by simp
    show ?thesis
    proof (cases "Targets conf name")
      case None
      with True obtain c where "Commands conf name = Some c" by (auto simp: resolvable_def)
      with None Cons.IH [OF later] show ?thesis by simp
    next
      case (Some target)
      with True have "list_all (\<lambda>n. Commands conf n \<noteq> None) target" by (simp add: resolvable_def)
      then have tc: "targetCommands conf target acc = Inr (acc @ concat (map (named conf) target))"
        by (rule targetCommands_ok)
      with Some Cons.IH [OF later] show ?thesis
        by (cases "Commands conf name") simp_all
    qed
  qed
qed


lemma matchingHosts_filter: "matchingHosts expr hs acc = acc @ filter expr hs"
  by (induction hs arbitrary: acc) simp_all

lemma otherHosts_filter: "otherHosts expr hs acc = acc @ filter (\<lambda>h. \<not> expr h) hs"
  by (induction hs arbitrary: acc) simp_all

lemma parseArgs_hosts:
  "parseArgs mw flag conf = Inr (net, commands) \<Longrightarrow> Hosts net \<noteq> []"
  by (auto simp: parseArgs_def Let_def split: if_splits option.splits sum.splits)






subsection \<open>Environment lists and the timestamp\<close>
















subsection \<open>The claims\<close>

text \<open>
  C4, as the specification states it, fails: a name is not resolved "first as a command
  name and otherwise as a target name". With a target \<open>deploy\<close> of the commands \<open>build\<close>
  and \<open>deploy\<close> and a command \<open>deploy\<close>, the argument \<open>deploy\<close> dispatches the commands of
  the target and then the command: \<open>build\<close>, \<open>deploy\<close>, \<open>deploy\<close>. Resolved as the
  specification words it, the argument dispatches the command \<open>deploy\<close> alone.
\<close>

theorem dispatch_order_counterexample:
  "parseNames conf0 [''deploy''] [] =
     Inr [cmd0\<lparr>Name := ''build'', RunSnippet := ''make''\<rparr>,
          cmd0\<lparr>Name := ''deploy'', RunSnippet := ''make install''\<rparr>,
          cmd0\<lparr>Name := ''deploy'', RunSnippet := ''make install''\<rparr>] \<and>
   dispatch_spec conf0 [''deploy''] [] =
     Inr [cmd0\<lparr>Name := ''deploy'', RunSnippet := ''make install''\<rparr>]"
  by code_simp

text \<open>
  C4, amended. Every argument after NETWORK is looked up as a target name and as a command
  name, both: it contributes the commands of the target of that name, in the target's
  order, and then the command of that name. When every argument names a target or a
  command, and every member of a named target is a command, the dispatched list is the
  concatenation of the contributions in argument order, each under the name it was looked
  up by. Otherwise the dispatch fails with the unknown-command error for a name that is
  not a command; an argument that is neither a target nor a command is such a case.
\<close>

theorem parseNames_dispatch:
  "(list_all (resolvable conf) names \<longrightarrow>
      parseNames conf names acc = Inr (acc @ concat (map (contribution conf) names))) \<and>
   (\<not> list_all (resolvable conf) names \<longrightarrow>
      (\<exists>n. parseNames conf names acc = Inl (ErrCmd n) \<and> Commands conf n = None)) \<and>
   (name \<in> set names \<and> Targets conf name = None \<and> Commands conf name = None \<longrightarrow>
      (\<exists>n. parseNames conf names acc = Inl (ErrCmd n) \<and> Commands conf n = None)) \<and>
   (parseArgs mw flag conf = Inr (net, commands) \<longrightarrow>
      commands = concat (map (contribution conf) (tl (Args mw))))"
proof (intro conjI impI)
  assume "list_all (resolvable conf) names"
  then show "parseNames conf names acc = Inr (acc @ concat (map (contribution conf) names))"
    by (rule parseNames_ok)
next
  assume "\<not> list_all (resolvable conf) names"
  then show "\<exists>n. parseNames conf names acc = Inl (ErrCmd n) \<and> Commands conf n = None"
    by (rule parseNames_fails)
next
  assume "name \<in> set names \<and> Targets conf name = None \<and> Commands conf name = None"
  then have "name \<in> set names" and "\<not> resolvable conf name"
    by (simp_all add: resolvable_def)
  then have "\<not> list_all (resolvable conf) names"
    by (auto simp: list_all_iff)
  then show "\<exists>n. parseNames conf names acc = Inl (ErrCmd n) \<and> Commands conf n = None"
    by (rule parseNames_fails)
next
  assume "parseArgs mw flag conf = Inr (net, commands)"
  then have parsed: "parseNames conf (tl (Args mw)) [] = Inr commands"
    by (auto simp: parseArgs_def Let_def split: if_splits option.splits sum.splits)
  show "commands = concat (map (contribution conf) (tl (Args mw)))"
  proof (cases "list_all (resolvable conf) (tl (Args mw))")
    case True
    from parseNames_ok [OF this, of "[]"] parsed show ?thesis by simp
  next
    case False
    from parseNames_fails [OF this, of "[]"] parsed show ?thesis by auto
  qed
qed

theorem parseNames_dispatch_witness:
  "list_all (resolvable conf0) [''build'', ''deploy''] \<and>
   parseNames conf0 [''build'', ''deploy''] [] =
     Inr [cmd0\<lparr>Name := ''build'', RunSnippet := ''make''\<rparr>,
          cmd0\<lparr>Name := ''build'', RunSnippet := ''make''\<rparr>,
          cmd0\<lparr>Name := ''deploy'', RunSnippet := ''make install''\<rparr>,
          cmd0\<lparr>Name := ''deploy'', RunSnippet := ''make install''\<rparr>] \<and>
   \<not> list_all (resolvable conf0) [''build'', ''nope''] \<and>
   ''nope'' \<in> set [''build'', ''nope''] \<and> Targets conf0 ''nope'' = None \<and>
   Commands conf0 ''nope'' = None \<and>
   parseNames conf0 [''build'', ''nope''] [] = Inl (ErrCmd ''nope'') \<and>
   parseArgs mw0 flags0 conf0 =
     Inr (net0\<lparr>Env := [(''SUP_NETWORK'', ''dev''), (''SUP_TIME'', ''2024-03-09T07:05:30Z''),
                        (''SUP_USER'', ''root'')]\<rparr>,
          [cmd0\<lparr>Name := ''build'', RunSnippet := ''make''\<rparr>])"
proof -
  have all: "list_all (resolvable conf0) [''build'', ''deploy'']" by code_simp
  have some: "\<not> list_all (resolvable conf0) [''build'', ''nope'']" by code_simp
  have neither: "''nope'' \<in> set [''build'', ''nope''] \<and> Targets conf0 ''nope'' = None \<and>
      Commands conf0 ''nope'' = None"
    by (simp add: conf0_def)
  have contributions: "concat (map (contribution conf0) [''build'', ''deploy'']) =
      [cmd0\<lparr>Name := ''build'', RunSnippet := ''make''\<rparr>,
       cmd0\<lparr>Name := ''build'', RunSnippet := ''make''\<rparr>,
       cmd0\<lparr>Name := ''deploy'', RunSnippet := ''make install''\<rparr>,
       cmd0\<lparr>Name := ''deploy'', RunSnippet := ''make install''\<rparr>]"
    by code_simp
  have failure: "parseNames conf0 [''build'', ''nope''] [] = Inl (ErrCmd ''nope'')" by code_simp
  have parsed: "parseArgs mw0 flags0 conf0 =
     Inr (net0\<lparr>Env := [(''SUP_NETWORK'', ''dev''), (''SUP_TIME'', ''2024-03-09T07:05:30Z''),
                        (''SUP_USER'', ''root'')]\<rparr>,
          [cmd0\<lparr>Name := ''build'', RunSnippet := ''make''\<rparr>])"
    by code_simp
  from parseNames_dispatch [of conf0 "[''build'', ''deploy'']" "[]"] all contributions
  have "parseNames conf0 [''build'', ''deploy''] [] =
     Inr [cmd0\<lparr>Name := ''build'', RunSnippet := ''make''\<rparr>,
          cmd0\<lparr>Name := ''build'', RunSnippet := ''make''\<rparr>,
          cmd0\<lparr>Name := ''deploy'', RunSnippet := ''make install''\<rparr>,
          cmd0\<lparr>Name := ''deploy'', RunSnippet := ''make install''\<rparr>]"
    by simp
  with all some neither failure parsed show ?thesis by simp
qed

text \<open>
  C5. Let \<open>H\<close> be the hosts \<open>parseArgs\<close> returned, \<open>R1\<close> and \<open>R2\<close> the compiled
  expressions of \<open>--only\<close> and \<open>--except\<close> (a flag that was not given is empty and filters
  nothing). \<open>--only\<close> replaces \<open>H\<close> by its hosts that match \<open>R1\<close>; \<open>--except\<close>, applied
  to that result, removes the hosts that match \<open>R2\<close>; both keep the order of \<open>H\<close>. When
  the first result is empty, or the first is not and the second is, \<open>main\<close> prints one
  error and exits with status 1, and that line is all it did: no bastion was dialled and
  no host connected. Otherwise the network goes on with the hosts that are left.
\<close>

theorem host_filters:
  assumes parsed: "parseArgs mw flag conf = Inr (net, commands)"
    and only: "OnlyHosts flag \<noteq> [] \<Longrightarrow> CompilePOSIX mw (OnlyHosts flag) = Inr R1"
    and except: "ExceptHosts flag \<noteq> [] \<Longrightarrow> CompilePOSIX mw (ExceptHosts flag) = Inr R2"
  shows "let H1 = (if OnlyHosts flag \<noteq> [] then filter R1 (Hosts net) else Hosts net);
             H2 = (if ExceptHosts flag \<noteq> [] then filter (\<lambda>h. \<not> R2 h) H1 else H1)
         in (H1 = [] \<longrightarrow>
               main mw w flag conf =
                 (Exit 1, [StderrError [] (ErrorString
                    (''no hosts match --only '' @ [CHR 0x27] @ OnlyHosts flag @ [CHR 0x27] @
                     '' regexp''))])) \<and>
            (H1 \<noteq> [] \<and> H2 = [] \<longrightarrow>
               main mw w flag conf =
                 (Exit 1, [StderrError [] (ErrorString
                    (''no hosts left after --except '' @ [CHR 0x27] @ OnlyHosts flag @ [CHR 0x27] @
                     '' regexp''))])) \<and>
            (H1 \<noteq> [] \<and> H2 \<noteq> [] \<longrightarrow>
               (case onlyHosts mw flag net of
                  Inl stop \<Rightarrow> Inl stop
                | Inr net1 \<Rightarrow> exceptHosts mw flag net1) = Inr (net\<lparr>Hosts := H2\<rparr>))"
proof -
  define H1 where "H1 = (if OnlyHosts flag \<noteq> [] then filter R1 (Hosts net) else Hosts net)"
  define H2 where "H2 = (if ExceptHosts flag \<noteq> [] then filter (\<lambda>h. \<not> R2 h) H1 else H1)"
  have hosts: "Hosts net \<noteq> []" using parsed by (rule parseArgs_hosts)
  have first: "onlyHosts mw flag net =
      (if H1 = [] then
         Inl (Exit 1, [StderrError [] (ErrorString
           (''no hosts match --only '' @ [CHR 0x27] @ OnlyHosts flag @ [CHR 0x27] @ '' regexp''))])
       else Inr (net\<lparr>Hosts := H1\<rparr>))"
  proof (cases "OnlyHosts flag = []")
    case True
    with hosts show ?thesis by (simp add: onlyHosts_def H1_def)
  next
    case False
    with only [OF False] show ?thesis
      by (simp add: onlyHosts_def H1_def matchingHosts_filter fail_def)
  qed
  have second: "exceptHosts mw flag (net\<lparr>Hosts := H1\<rparr>) =
      (if H2 = [] then
         Inl (Exit 1, [StderrError [] (ErrorString
           (''no hosts left after --except '' @ [CHR 0x27] @ OnlyHosts flag @ [CHR 0x27] @
            '' regexp''))])
       else Inr (net\<lparr>Hosts := H2\<rparr>))" if "H1 \<noteq> []"
  proof (cases "ExceptHosts flag = []")
    case True
    with that show ?thesis by (simp add: exceptHosts_def H2_def)
  next
    case False
    with except [OF False] show ?thesis
      by (simp add: exceptHosts_def H2_def otherHosts_filter fail_def)
  qed
  have "(H1 = [] \<longrightarrow>
           main mw w flag conf =
             (Exit 1, [StderrError [] (ErrorString
                (''no hosts match --only '' @ [CHR 0x27] @ OnlyHosts flag @ [CHR 0x27] @
                 '' regexp''))])) \<and>
        (H1 \<noteq> [] \<and> H2 = [] \<longrightarrow>
           main mw w flag conf =
             (Exit 1, [StderrError [] (ErrorString
                (''no hosts left after --except '' @ [CHR 0x27] @ OnlyHosts flag @ [CHR 0x27] @
                 '' regexp''))])) \<and>
        (H1 \<noteq> [] \<and> H2 \<noteq> [] \<longrightarrow>
           (case onlyHosts mw flag net of
              Inl stop \<Rightarrow> Inl stop
            | Inr net1 \<Rightarrow> exceptHosts mw flag net1) = Inr (net\<lparr>Hosts := H2\<rparr>))"
  proof (intro conjI impI)
    assume "H1 = []"
    with first parsed show "main mw w flag conf =
        (Exit 1, [StderrError [] (ErrorString
           (''no hosts match --only '' @ [CHR 0x27] @ OnlyHosts flag @ [CHR 0x27] @ '' regexp''))])"
      by (simp add: main_def)
  next
    assume "H1 \<noteq> [] \<and> H2 = []"
    with first second parsed show "main mw w flag conf =
        (Exit 1, [StderrError [] (ErrorString
           (''no hosts left after --except '' @ [CHR 0x27] @ OnlyHosts flag @ [CHR 0x27] @
            '' regexp''))])"
      by (simp add: main_def)
  next
    assume "H1 \<noteq> [] \<and> H2 \<noteq> []"
    with first second show "(case onlyHosts mw flag net of
          Inl stop \<Rightarrow> Inl stop
        | Inr net1 \<Rightarrow> exceptHosts mw flag net1) = Inr (net\<lparr>Hosts := H2\<rparr>)"
      by simp
  qed
  then show ?thesis unfolding H1_def H2_def Let_def .
qed


theorem host_filters_witness:
  "parseArgs mw0 (flags0\<lparr>OnlyHosts := ''^10'', ExceptHosts := ''^10''\<rparr>) conf0 =
     Inr (net0\<lparr>Env := [(''SUP_NETWORK'', ''dev''), (''SUP_TIME'', ''2024-03-09T07:05:30Z''),
                        (''SUP_USER'', ''root'')]\<rparr>,
          [cmd0\<lparr>Name := ''build'', RunSnippet := ''make''\<rparr>]) \<and>
   CompilePOSIX mw0 ''^10'' = Inr (\<lambda>h. take (length ''10'') h = ''10'') \<and>
   filter (\<lambda>h. take (length ''10'') h = ''10'') (Hosts net0) = [''10.0.0.1:22''] \<and>
   filter (\<lambda>h. \<not> take (length ''10'') h = ''10'') [''10.0.0.1:22''] = [] \<and>
   main mw0 world0 (flags0\<lparr>OnlyHosts := ''^10'', ExceptHosts := ''^10''\<rparr>) conf0 =
     (Exit 1, [StderrError [] (ErrorString
        (''no hosts left after --except '' @ [CHR 0x27] @ ''^10'' @ [CHR 0x27] @ '' regexp''))]) \<and>
   CompilePOSIX mw0 ''^web'' = Inr (\<lambda>h. take (length ''web'') h = ''web'') \<and>
   filter (\<lambda>h. take (length ''web'') h = ''web'') (Hosts net0) = [] \<and>
   main mw0 world0 (flags0\<lparr>OnlyHosts := ''^web''\<rparr>) conf0 =
     (Exit 1, [StderrError [] (ErrorString
        (''no hosts match --only '' @ [CHR 0x27] @ ''^web'' @ [CHR 0x27] @ '' regexp''))])"
proof -
  let ?net = "net0\<lparr>Env := [(''SUP_NETWORK'', ''dev''), (''SUP_TIME'', ''2024-03-09T07:05:30Z''),
                          (''SUP_USER'', ''root'')]\<rparr>"
  let ?commands = "[cmd0\<lparr>Name := ''build'', RunSnippet := ''make''\<rparr>]"
  let ?both = "flags0\<lparr>OnlyHosts := ''^10'', ExceptHosts := ''^10''\<rparr>"
  let ?web = "flags0\<lparr>OnlyHosts := ''^web''\<rparr>"
  have parsed_both: "parseArgs mw0 ?both conf0 = Inr (?net, ?commands)" by code_simp
  have parsed_web: "parseArgs mw0 ?web conf0 = Inr (?net, ?commands)" by code_simp
  have ten: "CompilePOSIX mw0 ''^10'' = Inr (\<lambda>h. take (length ''10'') h = ''10'')"
    by (simp add: mw0_def)
  have web: "CompilePOSIX mw0 ''^web'' = Inr (\<lambda>h. take (length ''web'') h = ''web'')"
    by (simp add: mw0_def)
  have only_ten: "filter (\<lambda>h. take (length ''10'') h = ''10'') (Hosts net0) = [''10.0.0.1:22'']"
    by (simp add: net0_def)
  have except_ten: "filter (\<lambda>h. \<not> take (length ''10'') h = ''10'') [''10.0.0.1:22''] = []"
    by simp
  have only_web: "filter (\<lambda>h. take (length ''web'') h = ''web'') (Hosts net0) = []"
    by (simp add: net0_def)
  have "OnlyHosts ?both \<noteq> [] \<Longrightarrow> CompilePOSIX mw0 (OnlyHosts ?both) = Inr (\<lambda>h. take (length ''10'') h = ''10'')"
    and "ExceptHosts ?both \<noteq> [] \<Longrightarrow> CompilePOSIX mw0 (ExceptHosts ?both) = Inr (\<lambda>h. take (length ''10'') h = ''10'')"
    using ten by simp_all
  from host_filters [OF parsed_both this, of world0] only_ten except_ten
  have stopped_except: "main mw0 world0 ?both conf0 =
     (Exit 1, [StderrError [] (ErrorString
        (''no hosts left after --except '' @ [CHR 0x27] @ ''^10'' @ [CHR 0x27] @ '' regexp''))])"
    by (simp add: Let_def flags0_def)
  have "OnlyHosts ?web \<noteq> [] \<Longrightarrow> CompilePOSIX mw0 (OnlyHosts ?web) = Inr (\<lambda>h. take (length ''web'') h = ''web'')"
    and "ExceptHosts ?web \<noteq> [] \<Longrightarrow> CompilePOSIX mw0 (ExceptHosts ?web) = Inr (\<lambda>h. False)"
    using web by (simp_all add: flags0_def)
  from host_filters [OF parsed_web this, of world0] only_web
  have stopped_only: "main mw0 world0 ?web conf0 =
     (Exit 1, [StderrError [] (ErrorString
        (''no hosts match --only '' @ [CHR 0x27] @ ''^web'' @ [CHR 0x27] @ '' regexp''))])"
    by (simp add: Let_def flags0_def)
  from parsed_both ten only_ten except_ten stopped_except web only_web stopped_only
  show ?thesis by blast
qed




end
